theory Spec2Isabelle
  imports Main "HOL-Library.AList"
begin

section \<open>JavaScript values and objects\<close>

text \<open>
  The composable \<^verbatim>\<open>useZodFormValidator\<close> works on plain JavaScript objects that are
  used as string-keyed records: the values map held by the caller's \<^verbatim>\<open>Ref\<close>, the
  errors map, and the shape of the Zod object schema.

  A raw value is \<^verbatim>\<open>unknown\<close> in the source. The model keeps what the code observes of a
  value: its primitive content, or the identity of an object. Integers stand for the
  numbers; \<open>VNaN\<close> is kept apart because it is the one value that is not strictly equal to
  itself. \<open>VInherited k\<close> is the member called \<open>k\<close> that every plain object inherits from
  \<^verbatim>\<open>Object.prototype\<close> (a function such as \<^verbatim>\<open>toString\<close>).
\<close>

datatype jsval =
    VUndefined
  | VNull
  | VBool bool
  | VNum int
  | VNaN
  | VStr string
  | VObject nat
  | VInherited string

text \<open>The operator \<^verbatim>\<open>===\<close>; \<^verbatim>\<open>a !== b\<close> is its negation.\<close>

definition strictEquals :: "jsval \<Rightarrow> jsval \<Rightarrow> bool" where
  "strictEquals a b = (a = b \<and> a \<noteq> VNaN)"

text \<open>
  An object is the list of its own enumerable properties in enumeration order, so that
  \<^verbatim>\<open>Object.keys\<close> is \<open>map fst\<close> and \<^verbatim>\<open>Object.values\<close> is \<open>map snd\<close>.
\<close>

type_synonym 'a jsobject = "(string \<times> 'a) list"

text \<open>
  The assignment \<^verbatim>\<open>o[k] = x\<close> of a primitive \<open>x\<close> (the errors map holds booleans and
  strings). It overwrites an own property in place and appends a new one, with one
  exception: \<^verbatim>\<open>__proto__\<close> is an accessor of \<^verbatim>\<open>Object.prototype\<close>, and on an object
  without an own property of that name the assignment runs the inherited setter, which
  ignores a primitive and defines nothing.
\<close>

definition assign :: "string \<Rightarrow> 'a \<Rightarrow> 'a jsobject \<Rightarrow> 'a jsobject" where
  "assign k x obj =
     (if k = ''__proto__'' \<and> k \<notin> set (map fst obj) then obj else AList.update k x obj)"

text \<open>The property names of \<^verbatim>\<open>Object.prototype\<close>, which every plain object inherits.\<close>

definition Object_prototype :: "string list" where
  "Object_prototype =
     [''constructor'', ''hasOwnProperty'', ''isPrototypeOf'', ''propertyIsEnumerable'',
      ''toLocaleString'', ''toString'', ''valueOf'', ''__proto__'',
      ''__defineGetter__'', ''__defineSetter__'', ''__lookupGetter__'', ''__lookupSetter__'']"

text \<open>The operator \<^verbatim>\<open>k in o\<close> on a plain object: own or inherited.\<close>

definition hasProperty :: "'a jsobject \<Rightarrow> string \<Rightarrow> bool" where
  "hasProperty obj k = (k \<in> set (map fst obj) \<or> k \<in> set Object_prototype)"

text \<open>The read \<^verbatim>\<open>o[k]\<close>: an own property, else an inherited member, else \<^verbatim>\<open>undefined\<close>.\<close>

datatype 'a member = Own 'a | InheritedMember | Absent

definition getMember :: "'a jsobject \<Rightarrow> string \<Rightarrow> 'a member" where
  "getMember obj k =
     (case map_of obj k of
        Some v \<Rightarrow> Own v
      | None \<Rightarrow> if k \<in> set Object_prototype then InheritedMember else Absent)"

text \<open>
  Truthiness of what such a read returns, for an object whose own properties are objects
  (the field schemas of a shape): only \<^verbatim>\<open>undefined\<close> is falsy.
\<close>

fun truthyMember :: "'a member \<Rightarrow> bool" where
  "truthyMember (Own _) = True"
| "truthyMember InheritedMember = True"
| "truthyMember Absent = False"

definition getProp :: "jsval jsobject \<Rightarrow> string \<Rightarrow> jsval" where
  "getProp obj k =
     (case getMember obj k of
        Own v \<Rightarrow> v
      | InheritedMember \<Rightarrow> VInherited k
      | Absent \<Rightarrow> VUndefined)"

text \<open>
  \<^verbatim>\<open>Array.prototype.findIndex\<close>: the index of the first element satisfying the
  predicate, \<open>-1\<close> when there is none.
\<close>

fun findIndex :: "('a \<Rightarrow> bool) \<Rightarrow> 'a list \<Rightarrow> int" where
  "findIndex p [] = -1"
| "findIndex p (x # xs) =
     (if p x then 0
      else (let i = findIndex p xs in if i = -1 then -1 else i + 1))"

section \<open>The schema library, at its interface\<close>

text \<open>
  Zod is an external library. A parse result is \<^verbatim>\<open>{success: true, data}\<close> or
  \<^verbatim>\<open>{success: false, error}\<close>, where \<^verbatim>\<open>error.issues\<close> is never empty (the library
  refuses to build a failure without an issue): \<open>Failure i is\<close> carries the first issue
  \<open>i\<close> and the others. An issue has a path, whose segments are property names or array
  indices, and a message.
\<close>

datatype path_segment = Key string | Index nat

record issue =
  path :: "path_segment list"
  message :: string

datatype 'a safeParseResult = Success 'a | Failure issue "issue list"

text \<open>A field schema (a Zod type) is its \<^verbatim>\<open>safeParse\<close>.\<close>

type_synonym zodType = "jsval \<Rightarrow> jsval safeParseResult"

text \<open>
  A \<^verbatim>\<open>ZodObject\<close> instance: its \<^verbatim>\<open>shape\<close> and its own whole-object \<^verbatim>\<open>safeParse\<close>.
  The latter depends on more than the shape (the policy for undeclared keys, a catch-all
  schema), so it is a component of the instance.
\<close>

record zodObject =
  shape :: "zodType jsobject"
  safeParse :: "jsval jsobject \<Rightarrow> (jsval jsobject) safeParseResult"

text \<open>
  A \<^verbatim>\<open>ZodSchema\<close> is an instance of \<^verbatim>\<open>ZodObject\<close> or of another class of the library
  (a string, number or array schema, an effect wrapped around an object, ...).
\<close>

datatype zodSchema = ZodObject zodObject | ZodOther zodType

fun instanceofZodObject :: "zodSchema \<Rightarrow> bool" where
  "instanceofZodObject (ZodObject _) = True"
| "instanceofZodObject (ZodOther _) = False"

text \<open>
  \<^verbatim>\<open>Array.prototype.join('.')\<close> on an issue path. A number is rendered in decimal.
\<close>

fun decimal :: "nat \<Rightarrow> string" where
  "decimal n =
     (if n < 10 then [''0123456789'' ! n]
      else decimal (n div 10) @ [''0123456789'' ! (n mod 10)])"

declare decimal.simps [simp del]

fun segmentString :: "path_segment \<Rightarrow> string" where
  "segmentString (Key k) = k"
| "segmentString (Index n) = decimal n"

fun join :: "path_segment list \<Rightarrow> string" where
  "join [] = []"
| "join [s] = segmentString s"
| "join (s # t # ts) = segmentString s @ ''.'' @ join (t # ts)"

section \<open>The composable\<close>

subsection \<open>Its arguments and its state\<close>

text \<open>
  \<^verbatim>\<open>values\<close> is a reactive cell (\<^verbatim>\<open>Ref\<close>) of the reactive library: an object whose
  property \<^verbatim>\<open>value\<close> holds the values map. \<open>cell_properties\<close> lists the names \<open>k\<close> for
  which \<^verbatim>\<open>k in values\<close> holds of the cell object itself (\<^verbatim>\<open>value\<close> and whatever else
  the library's cell carries or inherits); \<open>current\<close> is \<^verbatim>\<open>values.value\<close>.
\<close>

record 'a cell =
  cell_properties :: "string list"
  current :: 'a

datatype validationMode = onBlur | onChange

text \<open>An entry of the errors map: \<^verbatim>\<open>boolean | string\<close>.\<close>

datatype errorValue = EBool bool | EStr string

text \<open>
  The \<^verbatim>\<open>Error\<close>s the code throws, by message, and the \<^verbatim>\<open>TypeError\<close> that the runtime
  raises when \<^verbatim>\<open>safeParse\<close> is called on something that has none.
\<close>

datatype error =
    SchemaTypeError           \<comment> \<open>\<^verbatim>\<open>validationSchema needs to be Zod schema, use z.object{...}\<close>\<close>
  | MissingNameAttributeError \<comment> \<open>\<^verbatim>\<open>handleInputBlur must be used with an input that has a name attribute\<close>\<close>
  | UnsupportedTriggerError   \<comment> \<open>\<^verbatim>\<open>handleInputBlur got wrong event type\<close>\<close>
  | TypeError

text \<open>
  What the closure of one call of the composable holds: the caller's cell, the schema,
  the mode, and the errors map (the content of the \<^verbatim>\<open>errors\<close> ref). Every operation
  takes this state and returns the new one.
\<close>

record validator =
  "values" :: "jsval jsobject cell"
  validationSchema :: zodObject
  mode :: validationMode
  errors :: "errorValue jsobject"

text \<open>
  Line 23: \<^verbatim>\<open>validationSchema.shape ? validationSchema.shape : validationSchema\<close>. The
  shape of a \<^verbatim>\<open>ZodObject\<close> is an object, hence truthy.
\<close>

definition schema :: "validator \<Rightarrow> zodType jsobject" where
  "schema v = shape (validationSchema v)"

text \<open>
  Lines 14-24 and 105-113: the guard on the schema, then the fresh instance. The third
  argument is optional (\<open>None\<close> when the caller leaves it out) and defaults to \<open>onBlur\<close>.
\<close>

definition useZodFormValidator ::
  "jsval jsobject cell \<Rightarrow> zodSchema \<Rightarrow> validationMode option \<Rightarrow> error + validator" where
  "useZodFormValidator vals sch options =
     (case sch of
        ZodOther _ \<Rightarrow> Inl SchemaTypeError
      | ZodObject zo \<Rightarrow>
          Inr \<lparr>values = vals, validationSchema = zo,
               mode = (case options of None \<Rightarrow> onBlur | Some m \<Rightarrow> m),
               errors = []\<rparr>)"

subsection \<open>Aggregate validity\<close>

fun isString :: "errorValue \<Rightarrow> bool" where
  "isString (EStr _) = True"
| "isString (EBool _) = False"

text \<open>Truthiness of a \<^verbatim>\<open>boolean | string\<close>: \<^verbatim>\<open>true\<close> and the non-empty strings.\<close>

fun truthy :: "errorValue \<Rightarrow> bool" where
  "truthy (EBool b) = b"
| "truthy (EStr s) = (s \<noteq> [])"

text \<open>Lines 25-27, the computed cell, recomputed from the errors map on a read.\<close>

definition isValid :: "validator \<Rightarrow> bool" where
  "isValid v =
     (findIndex (\<lambda>val. isString val \<or> val = EBool True) (map snd (errors v)) = -1)"

subsection \<open>Validation of one field\<close>

text \<open>
  A trigger, as \<^verbatim>\<open>handleInputBlur\<close> tells them apart: a string; an object, with its
  \<^verbatim>\<open>target\<close> when that is truthy; anything else. A target has a \<^verbatim>\<open>name\<close> (absent, or
  a string) and a \<^verbatim>\<open>value\<close>.
\<close>

record target =
  target_name :: "string option"
  target_value :: jsval

datatype trigger = TString string | TObject "target option" | TOther

text \<open>
  Lines 30-44: the field name and the raw value of a trigger. An empty string is falsy,
  so it takes neither of the first two branches. Line 41 tests \<^verbatim>\<open>target.name in values\<close>
  on the cell \<^verbatim>\<open>values\<close>, not on \<^verbatim>\<open>values.value\<close>.
\<close>

definition resolveTrigger :: "jsval jsobject cell \<Rightarrow> trigger \<Rightarrow> error + (string \<times> jsval)" where
  "resolveTrigger vals e =
     (case e of
        TString s \<Rightarrow>
          if s \<noteq> [] then Inr (s, getProp (current vals) s)
          else Inl UnsupportedTriggerError
      | TObject (Some t) \<Rightarrow>
          (case target_name t of
             None \<Rightarrow> Inl MissingNameAttributeError
           | Some n \<Rightarrow>
               if n = [] then Inl MissingNameAttributeError
               else Inr (n, if n \<in> set (cell_properties vals)
                            then getProp (current vals) n
                            else target_value t))
      | TObject None \<Rightarrow> Inl UnsupportedTriggerError
      | TOther \<Rightarrow> Inl UnsupportedTriggerError)"

text \<open>
  Lines 47 and 53: \<^verbatim>\<open>!success && error ? error.issues[0].message : false\<close>.
\<close>

fun errorEntry :: "'a safeParseResult \<Rightarrow> errorValue" where
  "errorEntry (Success _) = EBool False"
| "errorEntry (Failure i _) = EStr (message i)"

text \<open>
  Lines 29-49. The guard of line 45 lets a name through when \<^verbatim>\<open>name in schema\<close> holds
  and \<^verbatim>\<open>schema[name]\<close> is truthy; line 46 then calls \<^verbatim>\<open>safeParse\<close> on that member,
  which only a field schema has.
\<close>

definition handleInputBlur :: "validator \<Rightarrow> trigger \<Rightarrow> error + validator" where
  "handleInputBlur v e =
     (case resolveTrigger (values v) e of
        Inl err \<Rightarrow> Inl err
      | Inr (name, val) \<Rightarrow>
          if name \<noteq> [] \<and> hasProperty (schema v) name \<and> truthyMember (getMember (schema v) name)
          then (case getMember (schema v) name of
                  Own fieldSchema \<Rightarrow>
                    Inr (v\<lparr>errors := assign name (errorEntry (fieldSchema val)) (errors v)\<rparr>)
                | _ \<Rightarrow> Inl TypeError)
          else Inr v)"

text \<open>
  Lines 51-55. There is no guard: \<^verbatim>\<open>toValue(schema)[name].safeParse\<close> raises when the
  member is \<^verbatim>\<open>undefined\<close> or has no \<^verbatim>\<open>safeParse\<close>. It returns what
  \<^verbatim>\<open>errors.value[name]\<close> reads after the assignment.
\<close>

definition validateProperty ::
  "validator \<Rightarrow> string \<Rightarrow> jsval \<Rightarrow> error + (errorValue member \<times> validator)" where
  "validateProperty v name val =
     (case getMember (schema v) name of
        Own fieldSchema \<Rightarrow>
          Inr (getMember (assign name (errorEntry (fieldSchema val)) (errors v)) name,
               v\<lparr>errors := assign name (errorEntry (fieldSchema val)) (errors v)\<rparr>)
      | _ \<Rightarrow> Inl TypeError)"

text \<open>Lines 57-59.\<close>

definition overrideFieldError :: "validator \<Rightarrow> string \<Rightarrow> errorValue \<Rightarrow> validator" where
  "overrideFieldError v name errorValue = v\<lparr>errors := assign name errorValue (errors v)\<rparr>"

subsection \<open>Validation of the whole form\<close>

record validateResult =
  result_isValid :: bool
  result_sanitizedValues :: "jsval jsobject"

text \<open>
  Lines 64-68: one assignment per issue, under its dotted path, a later issue
  overwriting.
\<close>

fun recordIssues :: "issue list \<Rightarrow> errorValue jsobject \<Rightarrow> errorValue jsobject" where
  "recordIssues [] errs = errs"
| "recordIssues (i # is) errs =
     recordIssues is (assign (join (path i)) (EStr (message i)) errs)"

text \<open>Lines 61-73. It returns the new state and the result object.\<close>

definition validate :: "validator \<Rightarrow> validator \<times> validateResult" where
  "validate v =
     (let r = safeParse (validationSchema v) (current (values v));
          errs = (case r of
                    Failure i is \<Rightarrow> recordIssues (i # is) []
                  | Success _ \<Rightarrow> [])
      in (v\<lparr>errors := errs\<rparr>,
          \<lparr>result_isValid =
             (findIndex (\<lambda>val. isString val \<or> truthy val) (map snd errs) = -1),
           result_sanitizedValues = (case r of Success d \<Rightarrow> d | Failure _ _ \<Rightarrow> [])\<rparr>))"

text \<open>
  Lines 75-78. The library's constructor \<^verbatim>\<open>z.object\<close> of an object schema from a shape
  is the parameter \<open>mkObject\<close>.
\<close>

definition getSanitizedValues :: "(zodType jsobject \<Rightarrow> zodObject) \<Rightarrow> validator \<Rightarrow> jsval jsobject" where
  "getSanitizedValues mkObject v =
     (case safeParse (mkObject (schema v)) (current (values v)) of
        Success d \<Rightarrow> d
      | Failure _ _ \<Rightarrow> [])"

text \<open>Lines 80-82.\<close>

definition clear :: "validator \<Rightarrow> validator" where
  "clear v = v\<lparr>errors := []\<rparr>"

subsection \<open>The subscription of the mode onChange\<close>

text \<open>Lines 84-92: the keys of \<open>obj1\<close>, in order, whose value there \<^verbatim>\<open>!==\<close> that in \<open>obj2\<close>.\<close>

definition diffKeys :: "jsval jsobject \<Rightarrow> jsval jsobject \<Rightarrow> string list" where
  "diffKeys obj1 obj2 =
     filter (\<lambda>key. \<not> strictEquals (getProp obj1 key) (getProp obj2 key)) (map fst obj1)"

text \<open>Lines 98-100: the loop stops at the first call that raises.\<close>

fun validateProperties :: "validator \<Rightarrow> jsval jsobject \<Rightarrow> string list \<Rightarrow> error + validator" where
  "validateProperties v newValues [] = Inr v"
| "validateProperties v newValues (p # ps) =
     (case validateProperty v p (getProp newValues p) of
        Inl err \<Rightarrow> Inl err
      | Inr (_, v') \<Rightarrow> validateProperties v' newValues ps)"

text \<open>Line 96: the names the callback takes as changed, first argument the new snapshot.\<close>

definition propertiesThatChanged :: "jsval jsobject \<Rightarrow> jsval jsobject \<Rightarrow> string list" where
  "propertiesThatChanged newValues oldValues = diffKeys newValues oldValues"

text \<open>Lines 95-102: the callback that \<^verbatim>\<open>watch\<close> calls with the new and the old snapshot.\<close>

definition watchCallback :: "validator \<Rightarrow> jsval jsobject \<Rightarrow> jsval jsobject \<Rightarrow> error + validator" where
  "watchCallback v newValues oldValues =
     (if length (propertiesThatChanged newValues oldValues) > 1
      then validateProperties v newValues (propertiesThatChanged newValues oldValues)
      else Inr v)"

text \<open>
  Lines 94-103: the callback is installed under \<open>onChange\<close> only. \<open>valuesChanged\<close> is what
  the replacement of \<^verbatim>\<open>values.value\<close> by \<open>newValues\<close> does to the validator: the reactive
  library calls the callback, if there is one, with the new and the previous snapshot.
\<close>

definition valuesChanged :: "validator \<Rightarrow> jsval jsobject \<Rightarrow> error + validator" where
  "valuesChanged v newValues =
     (let oldValues = current (values v);
          v' = v\<lparr>values := (values v)\<lparr>current := newValues\<rparr>\<rparr>
      in if mode v = onChange then watchCallback v' newValues oldValues else Inr v')"

text \<open>
  For stating what the subscription writes: the entry that the rule of a declared field
  \<open>k\<close> yields on the value of \<open>k\<close> in \<open>newValues\<close>; none for an undeclared name.
\<close>

definition ruleEntry :: "validator \<Rightarrow> jsval jsobject \<Rightarrow> string \<Rightarrow> errorValue option" where
  "ruleEntry v newValues k =
     (case map_of (schema v) k of
        Some fieldSchema \<Rightarrow> Some (errorEntry (fieldSchema (getProp newValues k)))
      | None \<Rightarrow> None)"

section \<open>Instances\<close>

text \<open>
  The theorems below hold for every field schema and every object schema, as functions.
  Concrete instances need concrete schemas; these follow the library's behaviour for the
  schemas they are named after. \<open>parsedType\<close> is the type name the library prints.
\<close>

fun parsedType :: "jsval \<Rightarrow> string" where
  "parsedType VUndefined = ''undefined''"
| "parsedType VNull = ''null''"
| "parsedType (VBool _) = ''boolean''"
| "parsedType (VNum _) = ''number''"
| "parsedType VNaN = ''nan''"
| "parsedType (VStr _) = ''string''"
| "parsedType (VObject _) = ''object''"
| "parsedType (VInherited k) = (if k = ''__proto__'' then ''object'' else ''function'')"

definition invalidType :: "string \<Rightarrow> jsval \<Rightarrow> 'a safeParseResult" where
  "invalidType expected val =
     Failure \<lparr>path = [],
              message = (if val = VUndefined then ''Required''
                         else ''Expected '' @ expected @ '', received '' @ parsedType val)\<rparr> []"

text \<open>\<^verbatim>\<open>z.string().min(n)\<close>.\<close>

definition z_string_min :: "nat \<Rightarrow> zodType" where
  "z_string_min n val =
     (case val of
        VStr s \<Rightarrow>
          if length s < n
          then Failure \<lparr>path = [],
                        message = ''String must contain at least '' @ decimal n @ '' character(s)''\<rparr> []
          else Success val
      | _ \<Rightarrow> invalidType ''string'' val)"

text \<open>
  An object schema parses each declared field with its schema, in the order of the
  shape, and puts the field's name in front of the path of each of its issues. Undeclared
  keys of the input are dropped (the default, \<open>Strip\<close>) or kept (\<open>Passthrough\<close>).
\<close>

datatype unknownKeys = Strip | Passthrough

fun parseFields :: "zodType jsobject \<Rightarrow> jsval jsobject \<Rightarrow> jsval jsobject \<times> issue list" where
  "parseFields [] data = ([], [])"
| "parseFields ((k, fieldSchema) # sh) data =
     (case fieldSchema (getProp data k) of
        Success d \<Rightarrow>
          ((if hasProperty data k \<or> d \<noteq> VUndefined then [(k, d)] else [])
             @ fst (parseFields sh data),
           snd (parseFields sh data))
      | Failure i is \<Rightarrow>
          (fst (parseFields sh data),
           map (\<lambda>j. j\<lparr>path := Key k # path j\<rparr>) (i # is) @ snd (parseFields sh data)))"

definition objectSafeParse ::
  "unknownKeys \<Rightarrow> zodType jsobject \<Rightarrow> jsval jsobject \<Rightarrow> (jsval jsobject) safeParseResult" where
  "objectSafeParse policy sh data =
     (case snd (parseFields sh data) of
        i # is \<Rightarrow> Failure i is
      | [] \<Rightarrow>
          Success (fst (parseFields sh data) @
                   (case policy of
                      Strip \<Rightarrow> []
                    | Passthrough \<Rightarrow> filter (\<lambda>(k, _). k \<notin> set (map fst sh)) data)))"

text \<open>\<^verbatim>\<open>z.object(shape)\<close> and \<^verbatim>\<open>schema.passthrough()\<close>.\<close>

definition z_object :: "zodType jsobject \<Rightarrow> zodObject" where
  "z_object sh = \<lparr>shape = sh, safeParse = objectSafeParse Strip sh\<rparr>"

definition z_passthrough :: "zodObject \<Rightarrow> zodObject" where
  "z_passthrough zo = zo\<lparr>safeParse := objectSafeParse Passthrough (shape zo)\<rparr>"

text \<open>
  A cell as plain as \<^verbatim>\<open>{ value: ... }\<close>: its own property \<^verbatim>\<open>value\<close> and what every
  object inherits.
\<close>

definition plainCell :: "'a \<Rightarrow> 'a cell" where
  "plainCell x = \<lparr>cell_properties = ''value'' # Object_prototype, current = x\<rparr>"

text \<open>The validator for a form with one declared field, \<^verbatim>\<open>name: z.string().min(5)\<close>.\<close>

definition nameForm :: "validationMode \<Rightarrow> jsval jsobject \<Rightarrow> validator" where
  "nameForm m vals =
     \<lparr>values = plainCell vals,
      validationSchema = z_object [(''name'', z_string_min 5)],
      mode = m,
      errors = []\<rparr>"

text \<open>The same form under a schema that keeps undeclared keys.\<close>

definition passthroughForm :: "jsval jsobject \<Rightarrow> validator" where
  "passthroughForm vals =
     \<lparr>values = plainCell vals,
      validationSchema = z_passthrough (z_object [(''name'', z_string_min 5)]),
      mode = onBlur,
      errors = []\<rparr>"

text \<open>
  A form whose one declared field is named \<^verbatim>\<open>__proto__\<close>, as in
  \<^verbatim>\<open>z.object({ ['__proto__']: z.string().min(5) })\<close>.
\<close>

definition protoForm :: "jsval jsobject \<Rightarrow> validator" where
  "protoForm vals =
     \<lparr>values = plainCell vals,
      validationSchema = z_object [(''__proto__'', z_string_min 5)],
      mode = onBlur,
      errors = []\<rparr>"

text \<open>A form whose one declared field has the empty string as its name.\<close>

definition emptyNameForm :: "jsval jsobject \<Rightarrow> validator" where
  "emptyNameForm vals =
     \<lparr>values = plainCell vals,
      validationSchema = z_object [([], z_string_min 5)],
      mode = onBlur,
      errors = []\<rparr>"

section \<open>The specification's wording\<close>

text \<open>
  Two sentences of the specification are compared with the code below. Each is written
  down here as it is worded: validity as ``no entry is a non-empty string and no entry is
  boolean true'', and the change diff as ``the names present in the previous snapshot
  whose value is not equal to the corresponding value in the current snapshot''.
\<close>

fun isNonEmptyString :: "errorValue \<Rightarrow> bool" where
  "isNonEmptyString (EStr s) = (s \<noteq> [])"
| "isNonEmptyString (EBool _) = False"

definition isValid_spec :: "validator \<Rightarrow> bool" where
  "isValid_spec v =
     (\<not> list_ex isNonEmptyString (map snd (errors v)) \<and>
      \<not> list_ex (\<lambda>val. val = EBool True) (map snd (errors v)))"

definition changedNames_spec :: "jsval jsobject \<Rightarrow> jsval jsobject \<Rightarrow> string list" where
  "changedNames_spec previous cur =
     filter (\<lambda>k. \<not> strictEquals (getProp previous k) (getProp cur k)) (map fst previous)"

section \<open>Facts about the helpers\<close>

lemma findIndex_lower: "- 1 \<le> findIndex p xs"
  by (induction xs) (auto simp: Let_def)

lemma findIndex_none: "(findIndex p xs = - 1) = (\<forall>x \<in> set xs. \<not> p x)"
proof (induction xs)
  case Nil
  show ?case by simp
next
  case (Cons x xs)
  have "findIndex p xs + 1 \<noteq> - 1"
    using findIndex_lower [of p xs] by arith
  with Cons show ?case by (simp add: Let_def)
qed

lemma update_values_subset: "snd ` set (AList.update k x al) \<subseteq> insert x (snd ` set al)"
  by (induction al) auto

text \<open>An assignment under any other key than \<^verbatim>\<open>__proto__\<close> defines the property.\<close>

lemma assign_update: "k \<noteq> ''__proto__'' \<Longrightarrow> assign k x obj = AList.update k x obj"
  by (simp add: assign_def)

lemma assign_proto: "''__proto__'' \<notin> set (map fst obj) \<Longrightarrow> assign ''__proto__'' x obj = obj"
  by (simp add: assign_def)

lemma assign_values_subset: "snd ` set (assign k x al) \<subseteq> insert x (snd ` set al)"
proof (cases "k = ''__proto__''")
  case False
  then show ?thesis
    using update_values_subset [of k x al] by (simp add: assign_update)
next
  case True
  show ?thesis
  proof (cases "''__proto__'' \<in> set (map fst al)")
    case False
    then have "assign ''__proto__'' x al = al" by (rule assign_proto)
    then show ?thesis unfolding True by auto
  next
    case present: True
    then have "assign ''__proto__'' x al = AList.update ''__proto__'' x al"
      by (simp add: assign_def)
    then show ?thesis
      unfolding True using update_values_subset [of "''__proto__''" x al] by simp
  qed
qed

lemma assign_not_empty: "al \<noteq> [] \<Longrightarrow> assign k x al \<noteq> []"
  by (simp add: assign_def)

lemma recordIssues_strings:
  "\<forall>val \<in> snd ` set errs. isString val \<Longrightarrow>
   \<forall>val \<in> snd ` set (recordIssues is errs). isString val"
proof (induction "is" arbitrary: errs)
  case Nil
  then show ?case by simp
next
  case (Cons i "is")
  have "\<forall>val \<in> snd ` set (assign (join (path i)) (EStr (message i)) errs). isString val"
  proof
    fix val
    assume "val \<in> snd ` set (assign (join (path i)) (EStr (message i)) errs)"
    then have "val = EStr (message i) \<or> val \<in> snd ` set errs"
      using assign_values_subset [of "join (path i)" "EStr (message i)" errs] by blast
    then show "isString val" using Cons.prems by auto
  qed
  from Cons.IH [OF this] show ?case by simp
qed

lemma recordIssues_not_empty: "errs \<noteq> [] \<Longrightarrow> recordIssues is errs \<noteq> []"
proof (induction "is" arbitrary: errs)
  case Nil
  then show ?case by simp
next
  case (Cons i "is")
  have "assign (join (path i)) (EStr (message i)) errs \<noteq> []"
    using Cons.prems by (rule assign_not_empty)
  from Cons.IH [OF this] show ?case by simp
qed

text \<open>An issue whose dotted path is not \<^verbatim>\<open>__proto__\<close> leaves an entry.\<close>

lemma recordIssues_written:
  "\<exists>j \<in> set is. join (path j) \<noteq> ''__proto__'' \<Longrightarrow> recordIssues is errs \<noteq> []"
proof (induction "is" arbitrary: errs)
  case Nil
  then show ?case by simp
next
  case (Cons i "is")
  show ?case
  proof (cases "join (path i) = ''__proto__''")
    case False
    then have "assign (join (path i)) (EStr (message i)) errs \<noteq> []"
      by (simp add: assign_update)
    then have "recordIssues is (assign (join (path i)) (EStr (message i)) errs) \<noteq> []"
      by (rule recordIssues_not_empty)
    then show ?thesis by simp
  next
    case True
    with Cons.prems have "\<exists>j \<in> set is. join (path j) \<noteq> ''__proto__''" by auto
    from Cons.IH [OF this] show ?thesis by simp
  qed
qed

lemma recordIssues_has_string:
  assumes "\<exists>j \<in> set is. join (path j) \<noteq> ''__proto__''"
  shows "\<exists>val \<in> set (map snd (recordIssues is [])). isString val"
proof -
  let ?errs = "recordIssues is []"
  have ne: "?errs \<noteq> []" using assms by (rule recordIssues_written)
  have all: "\<forall>val \<in> snd ` set ?errs. isString val"
    using recordIssues_strings [of "[]" "is"] by simp
  from ne obtain e es where "?errs = e # es" by (cases ?errs) auto
  with all show ?thesis by auto
qed

text \<open>
  The predicate of line 70 (\<^verbatim>\<open>typeof value === 'string' || value\<close>) and that of line 26
  (\<^verbatim>\<open>typeof value === 'string' || value === true\<close>) accept the same entries.
\<close>

lemma same_predicate: "(isString val \<or> truthy val) = (isString val \<or> val = EBool True)"
  by (cases val) auto

text \<open>
  What \<open>validate\<close> returns: on a success the output of the parse, on a failure with an
  issue recorded (a dotted path other than \<^verbatim>\<open>__proto__\<close>) invalid and the empty object.
\<close>

lemma validate_failure:
  assumes "safeParse (validationSchema v) (current (values v)) = Failure i is"
      and "\<exists>j \<in> set (i # is). join (path j) \<noteq> ''__proto__''"
  shows "snd (validate v) = \<lparr>result_isValid = False, result_sanitizedValues = []\<rparr>"
proof -
  have "\<exists>val \<in> set (map snd (recordIssues (i # is) [])). isString val \<or> truthy val"
    using recordIssues_has_string [OF assms(2)] by blast
  then have "findIndex (\<lambda>val. isString val \<or> truthy val) (map snd (recordIssues (i # is) [])) \<noteq> - 1"
    by (simp only: findIndex_none) blast
  then show ?thesis
    unfolding validate_def Let_def assms(1) by (simp del: recordIssues.simps)
qed

lemma validate_success:
  assumes "safeParse (validationSchema v) (current (values v)) = Success d"
  shows "snd (validate v) = \<lparr>result_isValid = True, result_sanitizedValues = d\<rparr>"
  unfolding validate_def Let_def assms by simp

lemma validateProperty_declared:
  assumes "map_of (schema v) p = Some fieldSchema"
  shows "\<exists>r. validateProperty v p x =
           Inr (r, v\<lparr>errors := assign p (errorEntry (fieldSchema x)) (errors v)\<rparr>)"
  using assms by (simp add: validateProperty_def getMember_def)

lemma validateProperty_undeclared:
  assumes "map_of (schema v) p = None"
  shows "validateProperty v p x = Inl TypeError"
  using assms by (simp add: validateProperty_def getMember_def)

text \<open>Evaluation of the instances.\<close>

lemma parse_Johnny_25:
  "objectSafeParse Strip [(''name'', z_string_min 5)] [(''name'', VStr ''Johnny''), (''age'', VNum 25)]
     = Success [(''name'', VStr ''Johnny'')]"
  "objectSafeParse Passthrough [(''name'', z_string_min 5)] [(''name'', VStr ''Johnny''), (''age'', VNum 25)]
     = Success [(''name'', VStr ''Johnny''), (''age'', VNum 25)]"
  by (simp_all add: objectSafeParse_def z_string_min_def getProp_def getMember_def hasProperty_def)

lemma parse_John:
  "objectSafeParse Strip [(''name'', z_string_min 5)] [(''name'', VStr ''John'')]
     = Failure \<lparr>path = [Key ''name''], message = ''String must contain at least 5 character(s)''\<rparr> []"
  by (simp add: objectSafeParse_def z_string_min_def getProp_def getMember_def decimal.simps)

lemma parse_proto:
  "objectSafeParse Strip [(''__proto__'', z_string_min 5)] []
     = Failure \<lparr>path = [Key ''__proto__''], message = ''Expected string, received object''\<rparr> []"
  by (simp add: objectSafeParse_def z_string_min_def invalidType_def getProp_def getMember_def
        Object_prototype_def)

section \<open>Aggregate validity\<close>

text \<open>
  Claim C1, as the code has it: \<open>isValid\<close> reads true if and only if no entry of the errors
  map is a string, empty or not, and no entry is boolean true. Line 26 tests
  \<^verbatim>\<open>typeof value === 'string'\<close>, not the length of the string.
\<close>

theorem isValid_iff_no_string_no_true:
  "isValid v = (\<forall>val \<in> set (map snd (errors v)). \<not> isString val \<and> val \<noteq> EBool True)"
  by (simp add: isValid_def findIndex_none)

text \<open>An entry \<^verbatim>\<open>false\<close> leaves the form valid, a message does not.\<close>

theorem isValid_iff_no_string_no_true_witness:
  "isValid (overrideFieldError (nameForm onBlur []) ''name'' (EBool False)) \<and>
   \<not> isValid (overrideFieldError (nameForm onBlur []) ''name'' (EStr ''Required''))"
  using isValid_iff_no_string_no_true [of "overrideFieldError (nameForm onBlur []) ''name'' (EBool False)"]
        isValid_iff_no_string_no_true [of "overrideFieldError (nameForm onBlur []) ''name'' (EStr ''Required'')"]
  by (simp add: overrideFieldError_def assign_def nameForm_def)

text \<open>
  The wording of C1 with ``non-empty'' fails after \<^verbatim>\<open>overrideFieldError('name', '')\<close>: no
  entry is a non-empty string and none is \<^verbatim>\<open>true\<close>, yet \<open>isValid\<close> reads false.
\<close>

theorem isValid_empty_message_counterexample:
  "isValid_spec (overrideFieldError (nameForm onBlur []) ''name'' (EStr [])) \<and>
   \<not> isValid (overrideFieldError (nameForm onBlur []) ''name'' (EStr []))"
  by (simp add: isValid_spec_def isValid_def overrideFieldError_def assign_def nameForm_def)

text \<open>Equivalently, the form is valid exactly when every entry is \<^verbatim>\<open>false\<close>.\<close>

lemma isValid_iff_all_false:
  "isValid v = (\<forall>val \<in> set (map snd (errors v)). val = EBool False)"
proof -
  have "(\<not> isString val \<and> val \<noteq> EBool True) = (val = EBool False)" for val
    by (cases val) auto
  then show ?thesis by (simp add: isValid_def findIndex_none)
qed

text \<open>
  Claim C10: the \<open>isValid\<close> that \<open>validate\<close> returns is the value of the computed
  \<open>isValid\<close> read in the state that \<open>validate\<close> leaves, for every schema and values map,
  although line 70 and line 26 state different predicates.
\<close>

theorem validate_isValid_agrees:
  "result_isValid (snd (validate v)) = isValid (fst (validate v))"
  by (simp add: validate_def isValid_def Let_def same_predicate)

section \<open>Change detection and the subscription\<close>

text \<open>
  Claim C2, as the code has it: the names that the subscription takes as changed are
  exactly the names present in the new (current) snapshot whose value there is not
  strictly equal to the value under the same name in the previous snapshot. Line 96
  calls \<^verbatim>\<open>diffKeys(newValues, oldValues)\<close>, and \<open>diffKeys\<close> walks the keys of its first
  argument.
\<close>

theorem propertiesThatChanged_set:
  "set (propertiesThatChanged newValues oldValues) =
     {k. k \<in> set (map fst newValues) \<and>
         \<not> strictEquals (getProp newValues k) (getProp oldValues k)}"
  by (auto simp: propertiesThatChanged_def diffKeys_def)

text \<open>
  The wording of C2 takes the names from the previous snapshot. When the update adds the
  field \<^verbatim>\<open>age\<close>, the subscription reports \<^verbatim>\<open>age\<close>, and the wording reports nothing.
\<close>

theorem propertiesThatChanged_counterexample:
  "set (propertiesThatChanged [(''name'', VStr ''John''), (''age'', VNum 25)] [(''name'', VStr ''John'')])
     = {''age''} \<and>
   set (changedNames_spec [(''name'', VStr ''John'')] [(''name'', VStr ''John''), (''age'', VNum 25)])
     = {}"
  by (simp add: propertiesThatChanged_def diffKeys_def changedNames_spec_def strictEquals_def
        getProp_def getMember_def Object_prototype_def)

text \<open>
  The subscription writes nothing when at most one name is reported as changed, and when
  two or more are reported and each is declared in the schema (none of them being
  \<^verbatim>\<open>__proto__\<close>, whose entry cannot be assigned), it sets the entry of each to what
  its rule yields on the new value and leaves the other entries alone.
\<close>

lemma valuesChanged_at_most_one:
  assumes "length (propertiesThatChanged newValues (current (values v))) \<le> 1"
  shows "\<exists>v'. valuesChanged v newValues = Inr v' \<and> errors v' = errors v"
  using assms by (simp add: valuesChanged_def Let_def watchCallback_def)

lemma validateProperties_declared:
  assumes "\<forall>p \<in> set ps. map_of (schema v) p \<noteq> None \<and> p \<noteq> ''__proto__''"
  shows "\<exists>v'. validateProperties v newValues ps = Inr v' \<and> schema v' = schema v \<and>
           (\<forall>k. map_of (errors v') k =
                  (if k \<in> set ps then ruleEntry v newValues k else map_of (errors v) k))"
  using assms
proof (induction ps arbitrary: v)
  case Nil
  show ?case by simp
next
  case (Cons p ps)
  from Cons.prems obtain fieldSchema where f: "map_of (schema v) p = Some fieldSchema"
    by auto
  let ?e = "errorEntry (fieldSchema (getProp newValues p))"
  let ?v1 = "v\<lparr>errors := AList.update p ?e (errors v)\<rparr>"
  have s1: "schema ?v1 = schema v" by (simp add: schema_def)
  have np: "p \<noteq> ''__proto__''" using Cons.prems by simp
  have "assign p ?e (errors v) = AList.update p ?e (errors v)"
    by (rule assign_update [OF np])
  then obtain r0 where "validateProperty v p (getProp newValues p) = Inr (r0, ?v1)"
    using validateProperty_declared [OF f, of "getProp newValues p"] by auto
  then have step: "validateProperties v newValues (p # ps) = validateProperties ?v1 newValues ps"
    by simp
  have "\<forall>q \<in> set ps. map_of (schema ?v1) q \<noteq> None \<and> q \<noteq> ''__proto__''"
    using Cons.prems s1 by simp
  from Cons.IH [OF this] obtain v' where
    r: "validateProperties ?v1 newValues ps = Inr v'" and
    s: "schema v' = schema ?v1" and
    m: "\<And>k. map_of (errors v') k =
          (if k \<in> set ps then ruleEntry ?v1 newValues k else map_of (errors ?v1) k)"
    by blast
  have re: "ruleEntry ?v1 newValues k = ruleEntry v newValues k" for k
    by (simp add: ruleEntry_def s1)
  have pe: "ruleEntry v newValues p = Some ?e"
    by (simp add: ruleEntry_def f)
  have "map_of (errors v') k =
          (if k \<in> set (p # ps) then ruleEntry v newValues k else map_of (errors v) k)" for k
  proof (cases "k \<in> set ps")
    case True
    then show ?thesis by (simp add: m re)
  next
    case False
    then show ?thesis by (simp add: m update_conv' pe)
  qed
  with r s s1 step show ?case by simp
qed

lemma watchCallback_declared:
  assumes "length (propertiesThatChanged newValues oldValues) > 1"
      and "\<forall>p \<in> set (propertiesThatChanged newValues oldValues).
             map_of (schema v) p \<noteq> None \<and> p \<noteq> ''__proto__''"
  shows "\<exists>v'. watchCallback v newValues oldValues = Inr v' \<and>
           (\<forall>k. map_of (errors v') k =
                  (if k \<in> set (propertiesThatChanged newValues oldValues)
                   then ruleEntry v newValues k else map_of (errors v) k))"
  using validateProperties_declared [OF assms(2), of newValues] assms(1)
  by (auto simp: watchCallback_def)

text \<open>
  Claim C4 has every changed field run through its rule once two or more fields changed.
  \<open>validateProperty\<close> has no guard for a name without a rule (\<open>handleInputBlur\<close> has one,
  line 45), so the loop of lines 98-100 stops with a \<^verbatim>\<open>TypeError\<close> at the first changed
  name that the schema does not declare. Here the values hold an undeclared \<^verbatim>\<open>nickname\<close>
  beside the declared \<^verbatim>\<open>name\<close>; both change, and \<^verbatim>\<open>name\<close>, now too short, is never
  validated: its rule would have yielded the message, the callback raises instead.
\<close>

theorem valuesChanged_unvalidated_field:
  "propertiesThatChanged [(''nickname'', VStr ''Jo''), (''name'', VStr ''Joh'')]
                         [(''nickname'', VStr ''J''), (''name'', VStr ''John'')]
     = [''nickname'', ''name''] \<and>
   ruleEntry (nameForm onChange [(''nickname'', VStr ''J''), (''name'', VStr ''John'')])
             [(''nickname'', VStr ''Jo''), (''name'', VStr ''Joh'')] ''name''
     = Some (EStr ''String must contain at least 5 character(s)'') \<and>
   valuesChanged (nameForm onChange [(''nickname'', VStr ''J''), (''name'', VStr ''John'')])
                 [(''nickname'', VStr ''Jo''), (''name'', VStr ''Joh'')]
     = Inl TypeError"
proof -
  have r: "ruleEntry (nameForm onChange [(''nickname'', VStr ''J''), (''name'', VStr ''John'')])
             [(''nickname'', VStr ''Jo''), (''name'', VStr ''Joh'')] ''name''
     = Some (EStr ''String must contain at least 5 character(s)'')"
    by (simp add: ruleEntry_def nameForm_def schema_def z_object_def z_string_min_def
          getProp_def getMember_def decimal.simps)
  have p: "propertiesThatChanged [(''nickname'', VStr ''Jo''), (''name'', VStr ''Joh'')]
                         [(''nickname'', VStr ''J''), (''name'', VStr ''John'')]
     = [''nickname'', ''name'']"
    by (simp add: propertiesThatChanged_def diffKeys_def strictEquals_def getProp_def getMember_def)
  have c: "valuesChanged (nameForm onChange [(''nickname'', VStr ''J''), (''name'', VStr ''John'')])
                 [(''nickname'', VStr ''Jo''), (''name'', VStr ''Joh'')]
     = Inl TypeError"
    by (simp add: p valuesChanged_def watchCallback_def Let_def nameForm_def plainCell_def
          validateProperty_def schema_def z_object_def getMember_def Object_prototype_def)
  show ?thesis using p r c by simp
qed

section \<open>Field triggers\<close>

text \<open>
  The value of an event-like trigger is read from the values map only when the name is
  a property of the cell object; for any other name it is the value of the event.
\<close>

lemma resolveTrigger_event_not_cell_property:
  assumes "n \<noteq> []" and "n \<notin> set (cell_properties vals)"
  shows "resolveTrigger vals (TObject (Some \<lparr>target_name = Some n, target_value = x\<rparr>)) = Inr (n, x)"
  using assms by (simp add: resolveTrigger_def)

text \<open>
  Claim C3 has the raw value of an event-like trigger be \<^verbatim>\<open>valuesMap[name]\<close> when the name
  is a key of the values map. Line 41 tests \<^verbatim>\<open>target.name in values\<close> against the cell,
  although the branch it guards reads \<^verbatim>\<open>values.value[target.name]\<close>. With the values
  \<^verbatim>\<open>{ email: 'a@b.co' }\<close> and a blur event of the input \<^verbatim>\<open>email\<close> carrying
  \<^verbatim>\<open>invalid-email\<close>, the key exists in the values map and the code still takes the value
  of the event.
\<close>

theorem resolveTrigger_ignores_values_map:
  "map_of (current (plainCell [(''email'', VStr ''a@b.co'')])) ''email'' = Some (VStr ''a@b.co'') \<and>
   resolveTrigger (plainCell [(''email'', VStr ''a@b.co'')])
     (TObject (Some \<lparr>target_name = Some ''email'', target_value = VStr ''invalid-email''\<rparr>))
   = Inr (''email'', VStr ''invalid-email'')"
  by (simp add: resolveTrigger_def plainCell_def Object_prototype_def)

text \<open>
  Claim C6, as the code has it: for every non-empty field name declared in the schema,
  \<open>handleInputBlur\<close> on that name sets the entry of the name to the message of the first
  issue when the rule fails on the current value, and to \<^verbatim>\<open>false\<close> when it passes; it
  raises nothing and writes no other entry. The statement is silent on the one name
  \<^verbatim>\<open>__proto__\<close>, under which the assignment of line 47 defines no entry.
\<close>

theorem handleInputBlur_known_field:
  assumes "name \<noteq> []" and "name \<noteq> ''__proto__''"
      and "map_of (schema v) name = Some fieldSchema"
  shows "handleInputBlur v (TString name) =
           Inr (v\<lparr>errors := AList.update name
                   (case fieldSchema (getProp (current (values v)) name) of
                      Failure i _ \<Rightarrow> EStr (message i)
                    | Success _ \<Rightarrow> EBool False)
                   (errors v)\<rparr>)"
proof -
  have own: "getMember (schema v) name = Own fieldSchema"
    using assms(3) by (simp add: getMember_def)
  have has: "hasProperty (schema v) name"
    using assms(3) by (auto simp: hasProperty_def dest: map_of_SomeD intro: rev_image_eqI)
  have entry: "errorEntry r = (case r of Failure i _ \<Rightarrow> EStr (message i) | Success _ \<Rightarrow> EBool False)"
    for r :: "jsval safeParseResult"
    by (cases r) simp_all
  show ?thesis
    using assms(1) own has
    by (simp add: handleInputBlur_def resolveTrigger_def entry assign_update [OF assms(2)])
qed

text \<open>
  The scenario of the specification: \<^verbatim>\<open>name: z.string().min(5)\<close> on \<^verbatim>\<open>John\<close> and on
  \<^verbatim>\<open>Johnny\<close>.
\<close>

theorem handleInputBlur_known_field_witness:
  "handleInputBlur (nameForm onBlur [(''name'', VStr ''John'')]) (TString ''name'') =
     Inr ((nameForm onBlur [(''name'', VStr ''John'')])
            \<lparr>errors := [(''name'', EStr ''String must contain at least 5 character(s)'')]\<rparr>) \<and>
   handleInputBlur (nameForm onBlur [(''name'', VStr ''Johnny'')]) (TString ''name'') =
     Inr ((nameForm onBlur [(''name'', VStr ''Johnny'')])\<lparr>errors := [(''name'', EBool False)]\<rparr>)"
proof -
  have n: "''name'' \<noteq> []" by simp
  have np: "''name'' \<noteq> ''__proto__''" by simp
  have s: "map_of (schema (nameForm m vals)) ''name'' = Some (z_string_min 5)" for m vals
    by (simp add: nameForm_def schema_def z_object_def)
  have e: "errors (nameForm m vals) = []" for m vals
    by (simp add: nameForm_def)
  have g1: "getProp (current (values (nameForm onBlur [(''name'', VStr ''John'')]))) ''name'' = VStr ''John''"
    by (simp add: nameForm_def plainCell_def getProp_def getMember_def)
  have g2: "getProp (current (values (nameForm onBlur [(''name'', VStr ''Johnny'')]))) ''name'' = VStr ''Johnny''"
    by (simp add: nameForm_def plainCell_def getProp_def getMember_def)
  have r1: "z_string_min 5 (VStr ''John'') =
      Failure \<lparr>path = [], message = ''String must contain at least 5 character(s)''\<rparr> []"
    by (simp add: z_string_min_def decimal.simps)
  have r2: "z_string_min 5 (VStr ''Johnny'') = Success (VStr ''Johnny'')"
    by (simp add: z_string_min_def)
  show ?thesis
    using handleInputBlur_known_field [OF n np s, of onBlur "[(''name'', VStr ''John'')]"]
          handleInputBlur_known_field [OF n np s, of onBlur "[(''name'', VStr ''Johnny'')]"]
    by (simp add: e g1 g2 r1 r2)
qed

text \<open>
  Under the declared name \<^verbatim>\<open>__proto__\<close> the rule is run and its entry is lost: the state
  is returned as it was.
\<close>

lemma handleInputBlur_proto_field:
  assumes "map_of (schema v) ''__proto__'' = Some fieldSchema"
      and "''__proto__'' \<notin> set (map fst (errors v))"
  shows "handleInputBlur v (TString ''__proto__'') = Inr v"
proof -
  have own: "getMember (schema v) ''__proto__'' = Own fieldSchema"
    using assms(1) by (simp add: getMember_def)
  have has: "hasProperty (schema v) ''__proto__''"
    by (simp add: hasProperty_def Object_prototype_def)
  show ?thesis
    using own has by (simp add: handleInputBlur_def resolveTrigger_def assign_proto [OF assms(2)])
qed

text \<open>
  The wording of C6 ranges over every declared name. A field may be declared under the
  empty string; that name is falsy, takes neither branch of lines 32-41, and the call
  throws ``got wrong event type'' instead of writing the entry.
\<close>

theorem handleInputBlur_empty_name_counterexample:
  "map_of (schema (emptyNameForm [([], VStr ''John'')])) [] = Some (z_string_min 5) \<and>
   handleInputBlur (emptyNameForm [([], VStr ''John'')]) (TString []) = Inl UnsupportedTriggerError"
  by (simp add: emptyNameForm_def schema_def z_object_def handleInputBlur_def resolveTrigger_def)

text \<open>
  A resolved name for which \<^verbatim>\<open>name in schema\<close> is false is skipped: nothing is raised and
  the state is unchanged. A resolved name that the shape does not declare but inherits
  passes the guard of line 45, and line 46 raises.
\<close>

lemma handleInputBlur_no_property:
  assumes "resolveTrigger (values v) e = Inr (name, x)" and "\<not> hasProperty (schema v) name"
  shows "handleInputBlur v e = Inr v"
  using assms by (simp add: handleInputBlur_def)

lemma handleInputBlur_inherited:
  assumes "resolveTrigger (values v) e = Inr (name, x)"
      and "name \<notin> set (map fst (schema v))" and "name \<in> set Object_prototype"
  shows "handleInputBlur v e = Inl TypeError"
proof -
  have none: "map_of (schema v) name = None"
    using assms(2) by (simp add: map_of_eq_None_iff)
  have ne: "name \<noteq> []"
    using assms(3) by (auto simp: Object_prototype_def)
  show ?thesis
    using assms(1,3) none ne by (simp add: handleInputBlur_def hasProperty_def getMember_def)
qed

text \<open>
  Claim C8 has every name that the shape does not declare ignored without an error. The
  guard of line 45 uses the operator \<^verbatim>\<open>in\<close>, which also holds of the names a plain
  object inherits, and the inherited member is truthy; \<^verbatim>\<open>schema[name]?.safeParse(value)\<close>
  then calls a \<^verbatim>\<open>safeParse\<close> that the member does not have. So
  \<^verbatim>\<open>handleInputBlur('toString')\<close> raises a \<^verbatim>\<open>TypeError\<close> on a schema that declares only
  \<^verbatim>\<open>name\<close>.
\<close>

theorem handleInputBlur_inherited_name:
  "''toString'' \<notin> set (map fst (schema (nameForm onBlur [(''name'', VStr ''John'')]))) \<and>
   handleInputBlur (nameForm onBlur [(''name'', VStr ''John'')]) (TString ''toString'') = Inl TypeError"
  by (simp add: nameForm_def plainCell_def schema_def z_object_def handleInputBlur_def resolveTrigger_def
        hasProperty_def getMember_def Object_prototype_def)

section \<open>Validation of the whole form\<close>

text \<open>
  On a success \<open>validate\<close> returns \<open>isValid = true\<close> and the output of the parse. On a
  failure it returns the empty object, and \<open>isValid = false\<close> provided that an issue was
  recorded, which every issue is but one whose dotted path is \<^verbatim>\<open>__proto__\<close>.
\<close>

lemma validate_result_recorded:
  "(safeParse (validationSchema v) (current (values v)) = Failure i is \<and>
    (\<exists>j \<in> set (i # is). join (path j) \<noteq> ''__proto__'') \<longrightarrow>
      result_isValid (snd (validate v)) = False \<and>
      result_sanitizedValues (snd (validate v)) = []) \<and>
   (safeParse (validationSchema v) (current (values v)) = Success d \<longrightarrow>
      result_isValid (snd (validate v)) = True \<and>
      result_sanitizedValues (snd (validate v)) = d)"
proof (intro conjI impI)
  assume a: "safeParse (validationSchema v) (current (values v)) = Failure i is \<and>
    (\<exists>j \<in> set (i # is). join (path j) \<noteq> ''__proto__'')"
  then have f: "safeParse (validationSchema v) (current (values v)) = Failure i is"
    and w: "\<exists>j \<in> set (i # is). join (path j) \<noteq> ''__proto__''" by blast+
  show "result_isValid (snd (validate v)) = False" by (simp add: validate_failure [OF f w])
  show "result_sanitizedValues (snd (validate v)) = []" by (simp add: validate_failure [OF f w])
next
  assume s: "safeParse (validationSchema v) (current (values v)) = Success d"
  show "result_isValid (snd (validate v)) = True" by (simp add: validate_success [OF s])
  show "result_sanitizedValues (snd (validate v)) = d" by (simp add: validate_success [OF s])
qed

text \<open>
  \<^verbatim>\<open>John\<close> fails \<^verbatim>\<open>z.string().min(5)\<close>; \<^verbatim>\<open>Johnny\<close> passes, and the output drops the
  undeclared \<^verbatim>\<open>age\<close>.
\<close>

lemma validate_result_examples:
  "snd (validate (nameForm onBlur [(''name'', VStr ''John'')]))
     = \<lparr>result_isValid = False, result_sanitizedValues = []\<rparr> \<and>
   snd (validate (nameForm onBlur [(''name'', VStr ''Johnny''), (''age'', VNum 25)]))
     = \<lparr>result_isValid = True, result_sanitizedValues = [(''name'', VStr ''Johnny'')]\<rparr>"
proof -
  have f: "safeParse (validationSchema (nameForm onBlur [(''name'', VStr ''John'')]))
     (current (values (nameForm onBlur [(''name'', VStr ''John'')])))
     = Failure \<lparr>path = [Key ''name''], message = ''String must contain at least 5 character(s)''\<rparr> []"
    by (simp add: nameForm_def plainCell_def z_object_def parse_John)
  have w: "\<exists>j \<in> set [\<lparr>path = [Key ''name''],
                         message = ''String must contain at least 5 character(s)''\<rparr>].
             join (path j) \<noteq> ''__proto__''"
    by simp
  have s: "safeParse (validationSchema (nameForm onBlur [(''name'', VStr ''Johnny''), (''age'', VNum 25)]))
     (current (values (nameForm onBlur [(''name'', VStr ''Johnny''), (''age'', VNum 25)])))
     = Success [(''name'', VStr ''Johnny'')]"
    by (simp add: nameForm_def plainCell_def z_object_def parse_Johnny_25)
  show ?thesis
    using validate_failure [OF f w] validate_success [OF s] by simp
qed

text \<open>
  Claim C5 has \<open>validate\<close> return \<open>isValid = false\<close> whenever the whole-object parse
  fails. Line 66 records an issue by \<^verbatim>\<open>errors.value[issue.path.join('.')] = message\<close>,
  and under the key \<^verbatim>\<open>__proto__\<close> that assignment defines no entry. With the schema
  \<^verbatim>\<open>z.object({ ['__proto__']: z.string().min(5) })\<close> and the values \<^verbatim>\<open>{}\<close> the parse
  fails with one issue at the path \<^verbatim>\<open>['__proto__']\<close>, the errors map stays empty, and
  \<open>validate\<close> returns \<open>isValid = true\<close>.
\<close>

theorem validate_proto_path:
  "safeParse (validationSchema (protoForm [])) (current (values (protoForm [])))
     = Failure \<lparr>path = [Key ''__proto__''], message = ''Expected string, received object''\<rparr> [] \<and>
   errors (fst (validate (protoForm []))) = [] \<and>
   result_isValid (snd (validate (protoForm []))) = True \<and>
   result_sanitizedValues (snd (validate (protoForm []))) = []"
proof -
  have f: "safeParse (validationSchema (protoForm [])) (current (values (protoForm [])))
     = Failure \<lparr>path = [Key ''__proto__''], message = ''Expected string, received object''\<rparr> []"
    by (simp add: protoForm_def plainCell_def z_object_def parse_proto)
  show ?thesis
    unfolding validate_def Let_def f by (simp add: f assign_def)
qed

text \<open>
  \<open>getSanitizedValues\<close> parses with the object schema that \<^verbatim>\<open>z.object\<close> rebuilds from the
  shape, \<open>validate\<close> with the schema it was given. When the given schema is itself the
  \<^verbatim>\<open>z.object\<close> of a shape, the two are the same schema and the two results are equal,
  whether the values satisfy the schema or not.
\<close>

lemma z_object_rebuilt:
  assumes "validationSchema v = z_object sh"
  shows "z_object (schema v) = validationSchema v"
  using assms by (simp add: schema_def z_object_def)

lemma getSanitizedValues_plain_schema:
  assumes "validationSchema v = z_object sh"
  shows "getSanitizedValues z_object v = result_sanitizedValues (snd (validate v))"
  by (simp add: getSanitizedValues_def validate_def Let_def z_object_rebuilt [OF assms])

text \<open>
  Claim C7, as the code has it: for every validator whose schema is the plain
  \<^verbatim>\<open>z.object\<close> of a shape, and every values map that satisfies the schema,
  \<open>getSanitizedValues\<close> returns what \<open>validate\<close> returns as \<open>sanitizedValues\<close>, and both
  are the coerced output of the parse.
\<close>

theorem getSanitizedValues_agrees:
  assumes "validationSchema v = z_object sh"
      and "safeParse (validationSchema v) (current (values v)) = Success d"
  shows "getSanitizedValues z_object v = result_sanitizedValues (snd (validate v)) \<and>
         getSanitizedValues z_object v = d"
  using assms(2)
  by (simp add: getSanitizedValues_def validate_def Let_def z_object_rebuilt [OF assms(1)])

text \<open>The form \<^verbatim>\<open>name: z.string().min(5)\<close> on \<^verbatim>\<open>Johnny\<close> with an undeclared \<^verbatim>\<open>age\<close>.\<close>

theorem getSanitizedValues_agrees_witness:
  "getSanitizedValues z_object (nameForm onBlur [(''name'', VStr ''Johnny''), (''age'', VNum 25)])
     = result_sanitizedValues
         (snd (validate (nameForm onBlur [(''name'', VStr ''Johnny''), (''age'', VNum 25)]))) \<and>
   getSanitizedValues z_object (nameForm onBlur [(''name'', VStr ''Johnny''), (''age'', VNum 25)])
     = [(''name'', VStr ''Johnny'')]"
proof -
  let ?v = "nameForm onBlur [(''name'', VStr ''Johnny''), (''age'', VNum 25)]"
  have a: "validationSchema ?v = z_object [(''name'', z_string_min 5)]"
    by (simp add: nameForm_def)
  have b: "safeParse (validationSchema ?v) (current (values ?v)) = Success [(''name'', VStr ''Johnny'')]"
    by (simp add: nameForm_def plainCell_def z_object_def parse_Johnny_25)
  show ?thesis by (rule getSanitizedValues_agrees [OF a b])
qed

text \<open>
  The wording of C7 covers every schema. \<^verbatim>\<open>z.object({...}).passthrough()\<close> is still a
  \<^verbatim>\<open>ZodObject\<close> and keeps undeclared keys, while the rebuilt schema drops them: on values
  that satisfy the schema, \<open>validate\<close> returns \<^verbatim>\<open>age\<close> and \<open>getSanitizedValues\<close> does not.
\<close>

theorem getSanitizedValues_passthrough_counterexample:
  "safeParse (validationSchema (passthroughForm [(''name'', VStr ''Johnny''), (''age'', VNum 25)]))
     (current (values (passthroughForm [(''name'', VStr ''Johnny''), (''age'', VNum 25)])))
     = Success [(''name'', VStr ''Johnny''), (''age'', VNum 25)] \<and>
   result_sanitizedValues (snd (validate (passthroughForm [(''name'', VStr ''Johnny''), (''age'', VNum 25)])))
     = [(''name'', VStr ''Johnny''), (''age'', VNum 25)] \<and>
   getSanitizedValues z_object (passthroughForm [(''name'', VStr ''Johnny''), (''age'', VNum 25)])
     = [(''name'', VStr ''Johnny'')]"
  by (simp add: passthroughForm_def plainCell_def z_passthrough_def z_object_def
        parse_Johnny_25 validate_def getSanitizedValues_def schema_def Let_def)

section \<open>Construction\<close>

text \<open>
  Claim C9: for every schema that is not an instance of \<^verbatim>\<open>ZodObject\<close>, the call of the
  composable throws the error of line 20 and returns no instance.
\<close>

theorem useZodFormValidator_rejects:
  "\<not> instanceofZodObject sch \<Longrightarrow> useZodFormValidator vals sch options = Inl SchemaTypeError"
  by (cases sch) (simp_all add: useZodFormValidator_def)

text \<open>The test of the repository: \<^verbatim>\<open>z.string()\<close> in place of an object schema.\<close>

theorem useZodFormValidator_rejects_witness:
  "\<not> instanceofZodObject (ZodOther (z_string_min 0)) \<and>
   useZodFormValidator (plainCell []) (ZodOther (z_string_min 0)) None = Inl SchemaTypeError"
  using useZodFormValidator_rejects [of "ZodOther (z_string_min 0)" "plainCell []" None]
  by simp

text \<open>An object schema is accepted, and the fresh instance has no errors and is valid.\<close>

lemma useZodFormValidator_accepts:
  "\<exists>v. useZodFormValidator vals (ZodObject zo) options = Inr v \<and> errors v = [] \<and> isValid v"
  by (simp add: useZodFormValidator_def isValid_def)

end
